theory Spec2Isabelle
  imports Complex_Main "HOL-Library.AList"
begin

section \<open>Python values\<close>

text \<open>
  A Python float is modelled by the number it stands for: a finite float is the exact real
  (binary64 rounding and overflow are left out), and the three special values are kept
  apart, because \<^verbatim>\<open>float("inf")\<close> and \<^verbatim>\<open>float("nan")\<close> succeed.
\<close>

datatype pyfloat = Fin real | PInf | NInf | NaN

fun fadd :: "pyfloat \<Rightarrow> pyfloat \<Rightarrow> pyfloat" where
  "fadd (Fin a) (Fin b) = Fin (a + b)"
| "fadd NaN _ = NaN"
| "fadd _ NaN = NaN"
| "fadd PInf NInf = NaN"
| "fadd NInf PInf = NaN"
| "fadd PInf _ = PInf"
| "fadd _ PInf = PInf"
| "fadd NInf _ = NInf"
| "fadd _ NInf = NInf"

fun fneg :: "pyfloat \<Rightarrow> pyfloat" where
  "fneg (Fin a) = Fin (- a)"
| "fneg PInf = NInf"
| "fneg NInf = PInf"
| "fneg NaN = NaN"

definition fsub :: "pyfloat \<Rightarrow> pyfloat \<Rightarrow> pyfloat" where
  "fsub a b = fadd a (fneg b)"

fun fabs :: "pyfloat \<Rightarrow> pyfloat" where
  "fabs (Fin a) = Fin \<bar>a\<bar>"
| "fabs PInf = PInf"
| "fabs NInf = PInf"
| "fabs NaN = NaN"

text \<open>\<open>flt a b\<close> is Python's \<^verbatim>\<open>a < b\<close> on floats: every comparison with NaN is false.\<close>

fun flt :: "pyfloat \<Rightarrow> pyfloat \<Rightarrow> bool" where
  "flt (Fin a) (Fin b) = (a < b)"
| "flt NaN _ = False"
| "flt _ NaN = False"
| "flt NInf NInf = False"
| "flt NInf _ = True"
| "flt _ NInf = False"
| "flt PInf _ = False"
| "flt _ PInf = True"

definition fgt :: "pyfloat \<Rightarrow> pyfloat \<Rightarrow> bool" where
  "fgt a b = flt b a"

text \<open>
  The values a parsed JSON document and the program's dictionaries hold. A dictionary is
  an association list: the keys are strings and their order is the insertion order.
\<close>

datatype pyval =
    PNone
  | PBool bool
  | PInt int
  | PFloat pyfloat
  | PStr string
  | PList "pyval list"
  | PDict "(string \<times> pyval) list"

type_synonym item = "(string \<times> pyval) list"

text \<open>\<^verbatim>\<open>d.get(k, default)\<close> and \<^verbatim>\<open>d[k] = v\<close>.\<close>

definition dict_get :: "item \<Rightarrow> string \<Rightarrow> pyval \<Rightarrow> pyval" where
  "dict_get d k dflt = (case map_of d k of None \<Rightarrow> dflt | Some v \<Rightarrow> v)"

definition dict_set :: "string \<Rightarrow> pyval \<Rightarrow> item \<Rightarrow> item" where
  "dict_set k v d = AList.update k v d"

definition has_key :: "item \<Rightarrow> string \<Rightarrow> bool" where
  "has_key d k = (map_of d k \<noteq> None)"

text \<open>The truth value of a Python object, as \<^verbatim>\<open>if x:\<close> reads it.\<close>

fun truthy :: "pyval \<Rightarrow> bool" where
  "truthy PNone = False"
| "truthy (PBool b) = b"
| "truthy (PInt n) = (n \<noteq> 0)"
| "truthy (PFloat f) = (f \<noteq> Fin 0)"
| "truthy (PStr s) = (s \<noteq> [])"
| "truthy (PList xs) = (xs \<noteq> [])"
| "truthy (PDict d) = (d \<noteq> [])"

fun type_name :: "pyval \<Rightarrow> string" where
  "type_name PNone = ''NoneType''"
| "type_name (PBool _) = ''bool''"
| "type_name (PInt _) = ''int''"
| "type_name (PFloat _) = ''float''"
| "type_name (PStr _) = ''str''"
| "type_name (PList _) = ''list''"
| "type_name (PDict _) = ''dict''"

text \<open>
  Exceptions are values. Each carries the text \<^verbatim>\<open>str(e)\<close> gives; for the conversion
  errors of \<^verbatim>\<open>float\<close> and \<^verbatim>\<open>int\<close> on a string the text stops before the echoed
  argument, which no handler of the program reads.
\<close>

datatype py_error =
    ValueError string
  | TypeError string
  | AttributeError string
  | OverflowError string
  | JSONDecodeError string
  | OtherError string

fun error_text :: "py_error \<Rightarrow> string" where
  "error_text (ValueError m) = m"
| "error_text (TypeError m) = m"
| "error_text (AttributeError m) = m"
| "error_text (OverflowError m) = m"
| "error_text (JSONDecodeError m) = m"
| "error_text (OtherError m) = m"

section \<open>Strings\<close>

text \<open>
  A \<open>char\<close> is read as one code point below 256. \<open>py_isspace\<close> is the whitespace
  \<^verbatim>\<open>str.strip()\<close> removes in that range; \<open>c_isspace\<close> is the smaller set the
  \<^verbatim>\<open>float\<close> constructor trims after it has turned non-ASCII whitespace into blanks.
\<close>

definition code :: "char \<Rightarrow> nat" where
  "code c = of_char c"

definition py_isspace :: "char \<Rightarrow> bool" where
  "py_isspace c = ((9 \<le> code c \<and> code c \<le> 13) \<or> (28 \<le> code c \<and> code c \<le> 32)
                   \<or> code c = 133 \<or> code c = 160)"

definition c_isspace :: "char \<Rightarrow> bool" where
  "c_isspace c = ((9 \<le> code c \<and> code c \<le> 13) \<or> code c = 32
                   \<or> code c = 133 \<or> code c = 160)"

definition is_digit :: "char \<Rightarrow> bool" where
  "is_digit c = (48 \<le> code c \<and> code c \<le> 57)"

definition digit_val :: "char \<Rightarrow> nat" where
  "digit_val c = code c - 48"

definition strip_with :: "(char \<Rightarrow> bool) \<Rightarrow> string \<Rightarrow> string" where
  "strip_with sp s = rev (dropWhile sp (rev (dropWhile sp s)))"

definition strip :: "string \<Rightarrow> string" where
  "strip s = strip_with py_isspace s"

text \<open>\<^verbatim>\<open>s.replace(c, '')\<close> for a one-character \<^verbatim>\<open>c\<close>.\<close>

definition remove_char :: "char \<Rightarrow> string \<Rightarrow> string" where
  "remove_char c s = filter (\<lambda>x. x \<noteq> c) s"

text \<open>\<^verbatim>\<open>sub in s\<close> on strings.\<close>

fun is_prefix :: "string \<Rightarrow> string \<Rightarrow> bool" where
  "is_prefix [] _ = True"
| "is_prefix (_ # _) [] = False"
| "is_prefix (x # xs) (y # ys) = (x = y \<and> is_prefix xs ys)"

fun contains :: "string \<Rightarrow> string \<Rightarrow> bool" where
  "contains sub [] = (sub = [])"
| "contains sub (c # cs) = (is_prefix sub (c # cs) \<or> contains sub cs)"

definition lower :: "char \<Rightarrow> char" where
  "lower c = (if 65 \<le> code c \<and> code c \<le> 90 then char_of (code c + 32) else c)"

fun digits_val :: "nat \<Rightarrow> string \<Rightarrow> nat" where
  "digits_val acc [] = acc"
| "digits_val acc (c # cs) = digits_val (10 * acc + digit_val c) cs"

section \<open>The float constructor on a string\<close>

text \<open>
  Underscores are legal only between two digits; they are removed before the number is
  read. \<open>prev\<close> is the character before the current one.
\<close>

fun strip_underscores :: "char option \<Rightarrow> string \<Rightarrow> string option" where
  "strip_underscores prev [] =
     (if prev = Some CHR ''_'' then None else Some [])"
| "strip_underscores prev (c # cs) =
     (if c = CHR ''_'' then
        (case prev of
           None \<Rightarrow> None
         | Some p \<Rightarrow> if is_digit p then strip_underscores (Some c) cs else None)
      else if prev = Some CHR ''_'' \<and> \<not> is_digit c then None
      else map_option ((#) c) (strip_underscores (Some c) cs))"

definition split_sign :: "string \<Rightarrow> bool \<times> string" where
  "split_sign s =
     (case s of
        [] \<Rightarrow> (False, [])
      | c # r \<Rightarrow> if c = CHR ''-'' then (True, r)
                 else if c = CHR ''+'' then (False, r) else (False, s))"

text \<open>The value of the digits \<open>ds\<close> scaled by ten to the power \<open>e\<close>.\<close>

definition scaled :: "bool \<Rightarrow> string \<Rightarrow> int \<Rightarrow> pyfloat" where
  "scaled neg ds e =
     (let m = real (digits_val 0 ds);
          v = (if 0 \<le> e then m * 10 ^ nat e else m / 10 ^ nat (- e))
      in Fin (if neg then - v else v))"

text \<open>
  The grammar of a float literal: a sign, then \<^verbatim>\<open>inf\<close>, \<^verbatim>\<open>infinity\<close> or
  \<^verbatim>\<open>nan\<close> in any case, or digits with an optional point and an optional exponent.
  The whole string must be consumed.
\<close>

definition float_literal :: "string \<Rightarrow> pyfloat option" where
  "float_literal s =
     (let (neg, r) = split_sign s; lr = map lower r in
      if lr = ''inf'' \<or> lr = ''infinity'' then Some (if neg then NInf else PInf)
      else if lr = ''nan'' then Some NaN
      else
        let ip = takeWhile is_digit r;
            r1 = dropWhile is_digit r;
            (fp, r2) = (case r1 of
                          [] \<Rightarrow> ([], [])
                        | c # t \<Rightarrow> if c = CHR ''.''
                                   then (takeWhile is_digit t, dropWhile is_digit t)
                                   else ([], r1))
        in if ip = [] \<and> fp = [] then None
           else (case r2 of
                   [] \<Rightarrow> Some (scaled neg (ip @ fp) (- int (length fp)))
                 | c # t \<Rightarrow>
                     if c = CHR ''e'' \<or> c = CHR ''E'' then
                       (let (eneg, ed) = split_sign t in
                        if ed \<noteq> [] \<and> list_all is_digit ed then
                          Some (scaled neg (ip @ fp)
                                 ((if eneg then - int (digits_val 0 ed) else int (digits_val 0 ed))
                                  - int (length fp)))
                        else None)
                     else None))"

definition py_float :: "string \<Rightarrow> py_error + pyfloat" where
  "py_float s =
     (case strip_underscores None (strip_with c_isspace s) of
        None \<Rightarrow> Inl (ValueError ''could not convert string to float: '')
      | Some t \<Rightarrow>
          (case float_literal t of
             None \<Rightarrow> Inl (ValueError ''could not convert string to float: '')
           | Some f \<Rightarrow> Inr f))"

section \<open>Price normalizer (core/utils.py)\<close>

text \<open>
  \<^verbatim>\<open>parse_price\<close>: anything but a string gives \<^verbatim>\<open>None\<close>; a string loses every
  dollar sign and comma, is stripped and handed to \<^verbatim>\<open>float\<close>. The handler catches
  \<^verbatim>\<open>ValueError\<close> and \<^verbatim>\<open>TypeError\<close> only, so any other exception would leave the
  function: the result is a sum, and \<open>Inl\<close> is an exception that escapes.
\<close>

definition parse_price :: "pyval \<Rightarrow> py_error + pyfloat option" where
  "parse_price price_str =
     (case price_str of
        PStr s \<Rightarrow>
          (let cleaned_price = strip (remove_char CHR '','' (remove_char CHR ''$'' s)) in
           case py_float cleaned_price of
             Inr f \<Rightarrow> Inr (Some f)
           | Inl (ValueError _) \<Rightarrow> Inr None
           | Inl (TypeError _) \<Rightarrow> Inr None
           | Inl e \<Rightarrow> Inl e)
      | _ \<Rightarrow> Inr None)"


subsection \<open>The specification's reading of a price string\<close>

text \<open>
  These two definitions follow the specification's words, not the code: \<open>price_pattern\<close>
  is a full match of \<^verbatim>\<open>\$?\d+(\.\d+)?\<close>, and \<open>denoted_value\<close> is the number its
  digits denote, by position.
\<close>

fun positional :: "string \<Rightarrow> real" where
  "positional [] = 0"
| "positional (c # cs) = real (digit_val c) * 10 ^ length cs + positional cs"

fun fractional :: "string \<Rightarrow> real" where
  "fractional [] = 0"
| "fractional (c # cs) = (real (digit_val c) + fractional cs) / 10"

definition price_pattern :: "string \<Rightarrow> bool" where
  "price_pattern t =
     (let b = (case t of [] \<Rightarrow> [] | c # r \<Rightarrow> if c = CHR ''$'' then r else t);
          ip = takeWhile is_digit b;
          rest = dropWhile is_digit b
      in ip \<noteq> [] \<and>
         (case rest of
            [] \<Rightarrow> True
          | c # fp \<Rightarrow> c = CHR ''.'' \<and> fp \<noteq> [] \<and> list_all is_digit fp))"

definition denoted_value :: "string \<Rightarrow> real" where
  "denoted_value t =
     (let b = (case t of [] \<Rightarrow> [] | c # r \<Rightarrow> if c = CHR ''$'' then r else t)
      in positional (takeWhile is_digit b) + fractional (drop 1 (dropWhile is_digit b)))"

section \<open>Item extraction adapter (services/gemini_client.py)\<close>

definition quote :: string where
  "quote = [CHR 0x27]"

definition digit_char :: "nat \<Rightarrow> char" where
  "digit_char n = ''0123456789'' ! n"

function show_nat :: "nat \<Rightarrow> string" where
  "show_nat n = (if n < 10 then [digit_char n]
                 else show_nat (n div 10) @ [digit_char (n mod 10)])"
  by pat_completeness auto
termination
  by (relation "measure (\<lambda>n. n)") auto

declare show_nat.simps [simp del]

definition show_int :: "int \<Rightarrow> string" where
  "show_int i = (if i < 0 then CHR ''-'' # show_nat (nat (- i)) else show_nat (nat i))"

text \<open>
  \<^verbatim>\<open>int(x)\<close>. A string is trimmed and must be an optional sign and digits (single
  underscores between digits allowed); a float is truncated towards zero; an infinite
  float raises \<^verbatim>\<open>OverflowError\<close>, which is neither \<^verbatim>\<open>ValueError\<close> nor
  \<^verbatim>\<open>TypeError\<close>.
\<close>

definition py_int_str :: "string \<Rightarrow> py_error + int" where
  "py_int_str s =
     (case strip_underscores None (strip_with c_isspace s) of
        None \<Rightarrow> Inl (ValueError ''invalid literal for int() with base 10: '')
      | Some t \<Rightarrow>
          (let (neg, ds) = split_sign t in
           if ds \<noteq> [] \<and> list_all is_digit ds
           then Inr (if neg then - int (digits_val 0 ds) else int (digits_val 0 ds))
           else Inl (ValueError ''invalid literal for int() with base 10: '')))"

definition int_type_error :: "pyval \<Rightarrow> py_error" where
  "int_type_error v =
     TypeError (''int() argument must be a string, a bytes-like object or a real number, not ''
                @ quote @ type_name v @ quote)"

fun py_int :: "pyval \<Rightarrow> py_error + int" where
  "py_int (PInt n) = Inr n"
| "py_int (PBool b) = Inr (if b then 1 else 0)"
| "py_int (PFloat (Fin r)) = Inr (if 0 \<le> r then \<lfloor>r\<rfloor> else \<lceil>r\<rceil>)"
| "py_int (PFloat NaN) = Inl (ValueError ''cannot convert float NaN to integer'')"
| "py_int (PFloat PInf) = Inl (OverflowError ''cannot convert float infinity to integer'')"
| "py_int (PFloat NInf) = Inl (OverflowError ''cannot convert float infinity to integer'')"
| "py_int (PStr s) = py_int_str s"
| "py_int PNone = Inl (int_type_error PNone)"
| "py_int (PList xs) = Inl (int_type_error (PList xs))"
| "py_int (PDict d) = Inl (int_type_error (PDict d))"

text \<open>
  A date is its proleptic Gregorian ordinal (1 is 0001-01-01, 3652059 is 9999-12-31).
  \<open>date_add\<close> is \<^verbatim>\<open>today + datetime.timedelta(days=days)\<close>: both the construction
  of the difference and the sum can raise \<^verbatim>\<open>OverflowError\<close>.
\<close>

definition max_ordinal :: int where
  "max_ordinal = 3652059"

definition date_add :: "int \<Rightarrow> int \<Rightarrow> py_error + int" where
  "date_add today days =
     (if \<bar>days\<bar> > 999999999
      then Inl (OverflowError (''days='' @ show_int days @ ''; must have magnitude <= 999999999''))
      else if today + days < 1 \<or> max_ordinal < today + days
      then Inl (OverflowError ''date value out of range'')
      else Inr (today + days))"

text \<open>
  What the program cannot compute by itself comes from its environment: the configuration
  read at start-up, the answer of the vision model after \<^verbatim>\<open>json.loads\<close> (or the
  exception raised on the way), the current date, the draws of the random generator (the
  \<open>k\<close>-th call of each kind), the price-lookup service, the text the library functions
  \<^verbatim>\<open>date.isoformat\<close> and \<^verbatim>\<open>format(x, ".2f")\<close> produce, and the behaviour of the
  table and file libraries when the output is prepared.
\<close>

datatype lookup_status = Found | NotFound | Varies | Error

record lookup_result =
  status :: lookup_status
  price :: "pyfloat option"
  details :: string
  url :: pyval

type_synonym cell = "pyval option"

record dataframe =
  columns :: "string list"
  rows :: "cell list list"

type_synonym image = string

record env =
  google_api_key :: bool
  gemini_client_initialized :: bool
  perplexity_api_key :: bool
  gemini_response :: "image \<Rightarrow> py_error + pyval"
  today :: int
  isoformat :: "int \<Rightarrow> string"
  fmt2 :: "pyfloat \<Rightarrow> string"
  randint :: "nat \<Rightarrow> int"
  uniform :: "nat \<Rightarrow> pyfloat"
  perplexity :: "pyval list \<Rightarrow> string \<Rightarrow> lookup_result"
  table_fault :: "item list \<Rightarrow> py_error option"
  csv_file :: "dataframe \<Rightarrow> string option"

text \<open>
  The body of the validation loop of \<^verbatim>\<open>call_gemini_vision_api\<close>: \<open>Inr None\<close> is an
  entry that is skipped, \<open>Inl\<close> an exception the inner handler does not catch.
\<close>

definition default_expiry :: "env \<Rightarrow> item \<Rightarrow> py_error + item option" where
  "default_expiry E d =
     (case date_add (today E) 7 of
        Inl e \<Rightarrow> Inl e
      | Inr expiry_date \<Rightarrow> Inr (Some (dict_set ''predicted_expiry'' (PStr (isoformat E expiry_date)) d)))"

definition compute_expiry :: "env \<Rightarrow> item \<Rightarrow> py_error + item option" where
  "compute_expiry E d =
     (case py_int (dict_get d ''days_until_expiry'' PNone) of
        Inl e \<Rightarrow> Inl e
      | Inr days \<Rightarrow>
          (case date_add (today E) days of
             Inl e \<Rightarrow> Inl e
           | Inr expiry_date \<Rightarrow>
               Inr (Some (dict_set ''predicted_expiry'' (PStr (isoformat E expiry_date)) d))))"

definition validate_item :: "env \<Rightarrow> pyval \<Rightarrow> py_error + item option" where
  "validate_item E it =
     (case it of
        PDict d \<Rightarrow>
          if has_key d ''item'' \<and> has_key d ''days_until_expiry'' \<and> has_key d ''price_paid''
          then (case compute_expiry E d of
                  Inl (ValueError _) \<Rightarrow> default_expiry E d
                | Inl (TypeError _) \<Rightarrow> default_expiry E d
                | r \<Rightarrow> r)
          else Inr None
      | _ \<Rightarrow> Inr None)"

fun validate_items :: "env \<Rightarrow> pyval list \<Rightarrow> py_error + item list" where
  "validate_items E [] = Inr []"
| "validate_items E (it # its) =
     (case validate_item E it of
        Inl e \<Rightarrow> Inl e
      | Inr r \<Rightarrow>
          (case validate_items E its of
             Inl e \<Rightarrow> Inl e
           | Inr vs \<Rightarrow> Inr (case r of None \<Rightarrow> vs | Some v \<Rightarrow> v # vs)))"

definition extract_validated :: "env \<Rightarrow> pyval \<Rightarrow> py_error + item list \<times> pyval" where
  "extract_validated E data =
     (case data of
        PDict d \<Rightarrow>
          (let items = dict_get d ''items'' (PList []);
               total = dict_get d ''total'' (PStr ''N/A'')
           in case items of
                PList its \<Rightarrow>
                  (case validate_items E its of
                     Inl e \<Rightarrow> Inl e
                   | Inr validated_items \<Rightarrow> Inr (validated_items, total))
              | _ \<Rightarrow> Inr ([], total))
      | v \<Rightarrow> Inl (AttributeError (quote @ type_name v @ quote
                                   @ '' object has no attribute '' @ quote @ ''get'' @ quote)))"

definition call_gemini_vision_api :: "env \<Rightarrow> image \<Rightarrow> py_error + item list \<times> pyval" where
  "call_gemini_vision_api E img =
     (if \<not> google_api_key E \<or> \<not> gemini_client_initialized E
      then Inl (ValueError ''Google API Key not configured or client initialization failed.'')
      else
        (case (case gemini_response E img of
                 Inl e \<Rightarrow> Inl e
               | Inr data \<Rightarrow> extract_validated E data) of
           Inr r \<Rightarrow> Inr r
         | Inl (JSONDecodeError m) \<Rightarrow>
             Inr ([], PStr (''Error: Invalid JSON response from AI ('' @ m @ '')''))
         | Inl e \<Rightarrow>
             Inr ([], PStr (''Error: AI API call failed ('' @ error_text e @ '')''))))"

text \<open>
  The mock extraction: five fixed names with drawn shelf lives and prices; the shelf life
  is popped from each entry and replaced by the date.
\<close>

definition mock_names :: "string list" where
  "mock_names = [''Organic Milk'', ''Artisan Bread'', ''Avocado'', ''Free-Range Eggs'',
                 ''Fresh Spinach'']"

definition mock_item :: "env \<Rightarrow> nat \<Rightarrow> string \<Rightarrow> py_error + item" where
  "mock_item E k name =
     (case date_add (today E) (randint E k) of
        Inl e \<Rightarrow> Inl e
      | Inr expiry_date \<Rightarrow>
          Inr [(''item'', PStr name),
               (''price_paid'', PStr (CHR ''$'' # fmt2 E (uniform E k))),
               (''predicted_expiry'', PStr (isoformat E expiry_date))])"

fun mock_items :: "env \<Rightarrow> nat \<Rightarrow> string list \<Rightarrow> py_error + item list" where
  "mock_items E k [] = Inr []"
| "mock_items E k (n # ns) =
     (case mock_item E k n of
        Inl e \<Rightarrow> Inl e
      | Inr it \<Rightarrow>
          (case mock_items E (Suc k) ns of
             Inl e \<Rightarrow> Inl e
           | Inr its \<Rightarrow> Inr (it # its)))"

definition mock_gemini_vision_processor :: "env \<Rightarrow> image \<Rightarrow> py_error + item list \<times> pyval" where
  "mock_gemini_vision_processor E img =
     (case mock_items E 0 mock_names of
        Inl e \<Rightarrow> Inl e
      | Inr its \<Rightarrow> Inr (its, PStr (CHR ''$'' # fmt2 E (uniform E 5))))"

section \<open>Online price lookup adapter (services/perplexity_client.py)\<close>

text \<open>
  Without a key the adapter answers at once. With a key it first cleans the name, which
  raises \<^verbatim>\<open>AttributeError\<close> on anything but a string, outside the adapter's own
  handlers; the request and the parsing of the answer, all inside those handlers, are the
  environment's \<open>perplexity\<close>, which sees the names of the earlier invocations.
\<close>

definition get_online_grocery_price_perplexity ::
    "env \<Rightarrow> pyval list \<Rightarrow> pyval \<Rightarrow> py_error + lookup_result" where
  "get_online_grocery_price_perplexity E history item_name =
     (if \<not> perplexity_api_key E
      then Inr \<lparr>status = Error, price = None,
                details = ''Perplexity API Key not configured.'', url = PNone\<rparr>
      else
        (case item_name of
           PStr s \<Rightarrow>
             (let cleaned_item_name = strip (remove_char CHR ''^'' s)
              in Inr (perplexity E history cleaned_item_name))
         | v \<Rightarrow> Inl (AttributeError (quote @ type_name v @ quote
                                      @ '' object has no attribute '' @ quote @ ''replace'' @ quote))))"

section \<open>Summary formatter (core/utils.py)\<close>

text \<open>
  The report is built by appending templates. Each appended template is one \<open>fragment\<close>
  that carries the values interpolated into it; the markup around them is left out.
\<close>

datatype fragment =
    Latest_Receipt pyfloat
  | Online_Total nat nat "nat option" pyfloat string pyfloat string
  | Online_Total_NA
  | All_Receipts pyfloat
  | All_Online_Total nat nat "nat option" pyfloat string pyfloat string
  | All_Online_Total_NA
  | Close_Div
  | Items_Header nat
  | Item_Row pyval pyval pyval string pyval
  | Close_Outer

definition diff_status :: "pyfloat \<Rightarrow> string" where
  "diff_status d = (if fgt d (Fin 0) then ''cheaper online''
                    else if flt d (Fin 0) then ''cheaper in store'' else ''same price'')"

definition diff_colour :: "pyfloat \<Rightarrow> string" where
  "diff_colour d = (if fgt d (Fin 0) then ''green''
                    else if flt d (Fin 0) then ''red'' else ''black'')"

text \<open>\<^verbatim>\<open>"text" in x\<close> for an arbitrary object \<^verbatim>\<open>x\<close>.\<close>

fun py_in :: "string \<Rightarrow> pyval \<Rightarrow> py_error + bool" where
  "py_in sub (PStr s) = Inr (contains sub s)"
| "py_in sub (PList xs) = Inr (PStr sub \<in> set xs)"
| "py_in sub (PDict d) = Inr (has_key d sub)"
| "py_in sub v = Inl (TypeError (''argument of type '' @ quote @ type_name v @ quote
                                 @ '' is not iterable''))"

definition item_row :: "item \<Rightarrow> py_error + fragment" where
  "item_row result =
     (let item_name = dict_get result ''item'' (PStr ''Unknown'');
          price_paid = dict_get result ''price_paid'' (PStr ''N/A'');
          online_details = dict_get result ''online_details'' (PStr ''Not found'');
          product_url = dict_get result ''url'' PNone
      in case py_in ''Not Found'' online_details of
           Inl e \<Rightarrow> Inl e
         | Inr True \<Rightarrow> Inr (Item_Row item_name product_url price_paid ''#999'' online_details)
         | Inr False \<Rightarrow>
             (case py_in ''Assumed same'' online_details of
                Inl e \<Rightarrow> Inl e
              | Inr b \<Rightarrow> Inr (Item_Row item_name product_url price_paid
                                (if b then ''#666'' else []) online_details)))"

fun item_rows :: "item list \<Rightarrow> py_error + fragment list" where
  "item_rows [] = Inr []"
| "item_rows (r # rs) =
     (case item_row r of
        Inl e \<Rightarrow> Inl e
      | Inr f \<Rightarrow> (case item_rows rs of Inl e \<Rightarrow> Inl e | Inr fs \<Rightarrow> Inr (f # fs)))"

definition comparison_block ::
    "bool \<Rightarrow> nat \<Rightarrow> nat \<Rightarrow> nat \<Rightarrow> pyfloat \<Rightarrow> pyfloat \<Rightarrow> fragment" where
  "comparison_block cumulative found_count assumed_count n_items online_total diff =
     (if found_count > 0 \<or> assumed_count > 0 then
        (let total_compared = found_count + assumed_count;
             assumption_note = (if assumed_count > 0 then Some assumed_count else None)
         in (if cumulative then All_Online_Total else Online_Total)
              total_compared n_items assumption_note online_total
              (diff_colour diff) (fabs diff) (diff_status diff))
      else (if cumulative then All_Online_Total_NA else Online_Total_NA))"

definition format_comparison_summary ::
    "item list \<Rightarrow> pyval \<Rightarrow> pyfloat \<Rightarrow> pyfloat \<Rightarrow> nat \<Rightarrow> nat \<Rightarrow>
     item list \<Rightarrow> pyfloat \<Rightarrow> pyfloat \<Rightarrow> nat \<Rightarrow> nat \<Rightarrow> py_error + fragment list" where
  "format_comparison_summary current_items current_receipt_total_str current_receipt_paid
       current_online_total current_found_count current_assumed_count
       all_items all_receipts_paid all_online_total all_found_count all_assumed_count =
     (let current_diff = fsub current_receipt_paid current_online_total;
          all_diff = fsub all_receipts_paid all_online_total;
          html = [Latest_Receipt current_receipt_paid,
                  comparison_block False current_found_count current_assumed_count
                    (length current_items) current_online_total current_diff];
          html = (if length all_items > length current_items
                     \<or> fgt (fabs (fsub all_receipts_paid current_receipt_paid)) (Fin (1 / 100))
                  then html @ [All_Receipts all_receipts_paid,
                               comparison_block True all_found_count all_assumed_count
                                 (length all_items) all_online_total all_diff,
                               Close_Div]
                  else html @ [Close_Div])
      in if current_items \<noteq> [] then
           (case item_rows current_items of
              Inl e \<Rightarrow> Inl e
            | Inr rws \<Rightarrow>
                Inr (html @ [Items_Header (length current_items)] @ rws @ [Close_Div, Close_Outer]))
         else Inr (html @ [Close_Outer]))"

section \<open>Receipt aggregator (core/logic.py)\<close>

record totals =
  receipt_total :: pyfloat
  online_total :: pyfloat
  found_count :: nat
  assumed_count :: nat
  results :: "item list"

record loop_state =
  tot :: totals
  annotated :: "item list"
  lookups :: "pyval list"

definition result_row :: "pyval \<Rightarrow> pyval \<Rightarrow> pyval \<Rightarrow> pyval \<Rightarrow> pyval \<Rightarrow> item" where
  "result_row item_name price_paid_str online_details product_url ts =
     [(''item'', item_name), (''price_paid'', price_paid_str),
      (''online_details'', online_details), (''url'', product_url),
      (''receipt_timestamp'', ts)]"

text \<open>
  One pass of the loop over the new items: the paid price, the lookup, the folding of
  its result, the fields written to the item and the line added to the results.
\<close>

definition process_item :: "env \<Rightarrow> string \<Rightarrow> loop_state \<Rightarrow> item \<Rightarrow> py_error + loop_state" where
  "process_item E receipt_timestamp st item_dict =
     (let item_name = dict_get item_dict ''item'' (PStr ''Unknown Item'');
          price_paid_str = dict_get item_dict ''price_paid'' (PStr ''N/A'')
      in case parse_price price_paid_str of
           Inl e \<Rightarrow> Inl e
         | Inr price_paid_float \<Rightarrow>
             (let T = tot st;
                  T = (case price_paid_float of
                         Some p \<Rightarrow> T\<lparr>receipt_total := fadd (receipt_total T) p\<rparr>
                       | None \<Rightarrow> T)
              in case get_online_grocery_price_perplexity E (lookups st) item_name of
                   Inl e \<Rightarrow> Inl e
                 | Inr online_info \<Rightarrow>
                     (let product_url = url online_info;
                          (T, online_details, online_price, is_assumed_price) =
                            (case (status online_info, price online_info, price_paid_float) of
                               (Found, Some p, _) \<Rightarrow>
                                 (T\<lparr>online_total := fadd (online_total T) p,
                                     found_count := found_count T + 1\<rparr>,
                                  details online_info, PFloat p, False)
                             | (_, _, Some q) \<Rightarrow>
                                 (T\<lparr>online_total := fadd (online_total T) q,
                                     assumed_count := assumed_count T + 1\<rparr>,
                                  ''Assumed same as receipt ($'' @ fmt2 E q @ '')'',
                                  PFloat q, True)
                             | (_, _, None) \<Rightarrow>
                                 (T, details online_info, PNone, False));
                          item_dict = dict_set ''online_price'' online_price item_dict;
                          item_dict = dict_set ''is_assumed_price'' (PBool is_assumed_price) item_dict;
                          item_dict = dict_set ''online_details'' (PStr online_details) item_dict;
                          item_dict = dict_set ''url'' product_url item_dict;
                          T = T\<lparr>results := results T @
                                  [result_row item_name price_paid_str (PStr online_details)
                                     product_url (PStr receipt_timestamp)]\<rparr>
                      in Inr \<lparr>tot = T, annotated = annotated st @ [item_dict],
                              lookups = lookups st @ [item_name]\<rparr>)))"

fun lookup_loop :: "env \<Rightarrow> string \<Rightarrow> loop_state \<Rightarrow> item list \<Rightarrow> py_error + loop_state" where
  "lookup_loop E receipt_timestamp st [] = Inr st"
| "lookup_loop E receipt_timestamp st (item_dict # rest) =
     (case process_item E receipt_timestamp st item_dict of
        Inl e \<Rightarrow> Inl e
      | Inr st' \<Rightarrow> lookup_loop E receipt_timestamp st' rest)"

text \<open>\<^verbatim>\<open>all_online_total += item['online_price']\<close> for a stored value that is not \<^verbatim>\<open>None\<close>.\<close>

fun add_stored :: "pyfloat \<Rightarrow> pyval \<Rightarrow> py_error + pyfloat" where
  "add_stored a (PFloat p) = Inr (fadd a p)"
| "add_stored a (PInt n) = Inr (fadd a (Fin (real_of_int n)))"
| "add_stored a (PBool b) = Inr (fadd a (Fin (if b then 1 else 0)))"
| "add_stored a v = Inl (TypeError (''unsupported operand type(s) for +=: '' @ quote @ ''float''
                                     @ quote @ '' and '' @ quote @ type_name v @ quote))"

text \<open>One pass of the loop over the items of the previous receipts: nothing is looked up.\<close>

definition prior_item :: "totals \<Rightarrow> item \<Rightarrow> py_error + totals" where
  "prior_item A item =
     (let price_paid_str = dict_get item ''price_paid'' (PStr ''N/A'')
      in case parse_price price_paid_str of
           Inl e \<Rightarrow> Inl e
         | Inr price_paid_float \<Rightarrow>
             (let A = (case price_paid_float of
                         Some p \<Rightarrow> A\<lparr>receipt_total := fadd (receipt_total A) p\<rparr>
                       | None \<Rightarrow> A)
              in case (if has_key item ''online_price''
                          \<and> dict_get item ''online_price'' PNone \<noteq> PNone
                       then (case add_stored (online_total A)
                                    (dict_get item ''online_price'' PNone) of
                               Inl e \<Rightarrow> Inl e
                             | Inr t \<Rightarrow>
                                 Inr (if truthy (dict_get item ''is_assumed_price'' (PBool False))
                                      then A\<lparr>online_total := t,
                                             assumed_count := assumed_count A + 1\<rparr>
                                      else A\<lparr>online_total := t,
                                             found_count := found_count A + 1\<rparr>))
                       else (case price_paid_float of
                               Some p \<Rightarrow> Inr (A\<lparr>online_total := fadd (online_total A) p,
                                                  assumed_count := assumed_count A + 1\<rparr>)
                             | None \<Rightarrow> Inr A)) of
                   Inl e \<Rightarrow> Inl e
                 | Inr A \<Rightarrow>
                     Inr (A\<lparr>results := results A @
                            [result_row (dict_get item ''item'' (PStr ''Unknown''))
                               price_paid_str
                               (dict_get item ''online_details'' (PStr ''N/A''))
                               (dict_get item ''url'' PNone)
                               (dict_get item ''receipt_timestamp'' (PStr []))]\<rparr>)))"

fun prior_loop :: "totals \<Rightarrow> item list \<Rightarrow> py_error + totals" where
  "prior_loop A [] = Inr A"
| "prior_loop A (item # rest) =
     (case prior_item A item of
        Inl e \<Rightarrow> Inl e
      | Inr A' \<Rightarrow> prior_loop A' rest)"

definition zero_totals :: totals where
  "zero_totals = \<lparr>receipt_total = Fin 0, online_total = Fin 0, found_count = 0,
                   assumed_count = 0, results = []\<rparr>"

record aggregate =
  new_items :: "item list"
  current :: totals
  cumulative :: totals
  lookups_after :: "pyval list"

text \<open>
  The batch check and the cumulative totals: the new items, already tagged, are looked up
  one by one; the totals of all receipts start from those of the current one and add the
  inventory's items that carry another batch timestamp.
\<close>

definition aggregate_receipt ::
    "env \<Rightarrow> string \<Rightarrow> pyval list \<Rightarrow> item list \<Rightarrow> item list \<Rightarrow> py_error + aggregate" where
  "aggregate_receipt E receipt_timestamp history current_inventory_state new_items_data =
     (case lookup_loop E receipt_timestamp
             \<lparr>tot = zero_totals, annotated = [], lookups = history\<rparr> new_items_data of
        Inl e \<Rightarrow> Inl e
      | Inr st \<Rightarrow>
          (case (if current_inventory_state \<noteq> [] then
                   prior_loop (tot st)
                     (filter (\<lambda>item. dict_get item ''receipt_timestamp'' (PStr [])
                                        \<noteq> PStr receipt_timestamp)
                        current_inventory_state)
                 else Inr (tot st)) of
             Inl e \<Rightarrow> Inl e
           | Inr A \<Rightarrow> Inr \<lparr>new_items = annotated st, current = tot st, cumulative = A,
                            lookups_after = lookups st\<rparr>))"

subsection \<open>Tables\<close>

text \<open>
  A table is its column labels and its rows; a cell is \<open>None\<close> where the record has no
  such key. Labels may repeat, and selecting a label takes every column that carries it.
\<close>

fun first_seen :: "string list \<Rightarrow> string list \<Rightarrow> string list" where
  "first_seen acc [] = acc"
| "first_seen acc (k # ks) = (if k \<in> set acc then first_seen acc ks else first_seen (acc @ [k]) ks)"

definition columns_order :: "string list" where
  "columns_order = [''Item'', ''Price Paid'', ''Predicted Expiry Date'']"

definition empty_frame :: "string list \<Rightarrow> dataframe" where
  "empty_frame cols = \<lparr>columns = cols, rows = []\<rparr>"

definition frame_with_columns :: "item list \<Rightarrow> string list \<Rightarrow> dataframe" where
  "frame_with_columns records cols =
     \<lparr>columns = cols, rows = map (\<lambda>r. map (map_of r) cols) records\<rparr>"

definition frame_of_records :: "item list \<Rightarrow> dataframe" where
  "frame_of_records records =
     frame_with_columns records (first_seen [] (concat (map (map fst) records)))"

definition add_column :: "string \<Rightarrow> pyval \<Rightarrow> dataframe \<Rightarrow> dataframe" where
  "add_column c v df = \<lparr>columns = columns df @ [c], rows = map (\<lambda>r. r @ [Some v]) (rows df)\<rparr>"

definition ensure_column :: "string \<Rightarrow> pyval \<Rightarrow> dataframe \<Rightarrow> dataframe" where
  "ensure_column c v df = (if c \<notin> set (columns df) then add_column c v df else df)"

definition rename_columns :: "dataframe \<Rightarrow> dataframe" where
  "rename_columns df =
     df\<lparr>columns := map (\<lambda>c. if c = ''item'' then ''Item''
                              else if c = ''price_paid'' then ''Price Paid''
                              else if c = ''predicted_expiry'' then ''Predicted Expiry Date''
                              else c) (columns df)\<rparr>"

definition select_columns :: "string list \<Rightarrow> dataframe \<Rightarrow> dataframe" where
  "select_columns cols df =
     (let idx = concat (map (\<lambda>c. filter (\<lambda>i. columns df ! i = c) [0..<length (columns df)]) cols)
      in \<lparr>columns = map (\<lambda>i. columns df ! i) idx,
          rows = map (\<lambda>r. map (\<lambda>i. r ! i) idx) (rows df)\<rparr>)"

definition frame_empty :: "dataframe \<Rightarrow> bool" where
  "frame_empty df = (rows df = [] \<or> columns df = [])"

text \<open>The table \<^verbatim>\<open>process_receipt\<close> shows for an inventory.\<close>

definition inventory_table :: "item list \<Rightarrow> dataframe" where
  "inventory_table current_inventory_state =
     (if current_inventory_state = [] then empty_frame columns_order
      else
        (let full_df = frame_of_records current_inventory_state;
             full_df = ensure_column ''item'' (PStr ''Unknown Item'') full_df;
             full_df = ensure_column ''price_paid'' (PStr ''N/A'') full_df;
             full_df = ensure_column ''predicted_expiry'' (PStr ''N/A'') full_df;
             full_df = rename_columns full_df
         in select_columns columns_order full_df))"

subsection \<open>Processing a receipt\<close>

text \<open>
  The two pictographs that open the warning and the error message lie outside the
  one-character range; they are kept as their UTF-8 bytes.
\<close>

definition warning_sign :: string where
  "warning_sign = [CHR 0xE2, CHR 0x9A, CHR 0xA0, CHR 0xEF, CHR 0xB8, CHR 0x8F]"

definition cross_mark :: string where
  "cross_mark = [CHR 0xE2, CHR 0x9D, CHR 0x8C]"

record outputs =
  table :: dataframe
  total_display :: pyval
  file_output :: "string option"
  state :: "item list option"
  summary :: "fragment list"

text \<open>The mock's entries get a drawn price when one of them has none.\<close>

fun fill_prices :: "env \<Rightarrow> nat \<Rightarrow> item list \<Rightarrow> item list" where
  "fill_prices E k [] = []"
| "fill_prices E k (item # rest) =
     dict_set ''price_paid'' (PStr (CHR ''$'' # fmt2 E (uniform E k))) item
       # fill_prices E (Suc k) rest"

definition extraction :: "env \<Rightarrow> image \<Rightarrow> py_error + item list \<times> pyval" where
  "extraction E receipt_image =
     (if google_api_key E then call_gemini_vision_api E receipt_image
      else
        (case mock_gemini_vision_processor E receipt_image of
           Inl e \<Rightarrow> Inl e
         | Inr (new_items_data, latest_total_amount) \<Rightarrow>
             if \<not> list_all (\<lambda>item. has_key item ''price_paid'') new_items_data
             then Inr (fill_prices E 6 new_items_data, latest_total_amount)
             else Inr (new_items_data, latest_total_amount)))"

definition carries_error :: "pyval \<Rightarrow> bool" where
  "carries_error latest_total_amount =
     (case latest_total_amount of PStr s \<Rightarrow> contains ''Error:'' s | _ \<Rightarrow> False)"

text \<open>
  The handler at the end of \<^verbatim>\<open>process_receipt\<close>: it returns the inventory and the
  summary as they are when the exception arrives. In \<^verbatim>\<open>process_receipt\<close> itself the
  inventory is a list of dictionaries, so the filters on \<^verbatim>\<open>isinstance(item, dict)\<close>
  keep everything; the test \<^verbatim>\<open>if new_items_data:\<close> before the lookup loop is reached
  with a non-empty list only and is left out; \<open>history\<close> is the list of names the
  lookup adapter was invoked with before the call.
\<close>

definition on_exception :: "item list \<Rightarrow> fragment list \<Rightarrow> py_error \<Rightarrow> outputs" where
  "on_exception current_inventory_state comparison_summary e =
     \<lparr>table = frame_with_columns current_inventory_state columns_order,
      total_display = PStr (cross_mark @ '' An unexpected error occurred in processing: ''
                            @ error_text e),
      file_output = None,
      state = Some current_inventory_state,
      summary = comparison_summary\<rparr>"

definition summarise :: "pyval \<Rightarrow> aggregate \<Rightarrow> py_error + fragment list" where
  "summarise latest_total_amount a =
     format_comparison_summary
       (results (current a)) latest_total_amount
       (receipt_total (current a)) (online_total (current a))
       (found_count (current a)) (assumed_count (current a))
       (results (cumulative a)) (receipt_total (cumulative a)) (online_total (cumulative a))
       (found_count (cumulative a)) (assumed_count (cumulative a))"

definition process_receipt ::
    "env \<Rightarrow> string \<Rightarrow> pyval list \<Rightarrow> image option \<Rightarrow> item list option \<Rightarrow> outputs" where
  "process_receipt E receipt_timestamp history receipt_image current_inventory_state =
     (case receipt_image of
        None \<Rightarrow>
          \<lparr>table = empty_frame columns_order,
           total_display = PStr (warning_sign @ '' Upload receipt first''),
           file_output = None, state = current_inventory_state, summary = []\<rparr>
      | Some img \<Rightarrow>
          (let inventory = (case current_inventory_state of None \<Rightarrow> [] | Some xs \<Rightarrow> xs)
           in case extraction E img of
                Inl e \<Rightarrow> on_exception inventory [] e
              | Inr (new_items_data, latest_total_amount) \<Rightarrow>
                  if new_items_data = [] \<and> carries_error latest_total_amount then
                    \<lparr>table = frame_with_columns inventory columns_order,
                     total_display = latest_total_amount,
                     file_output = None, state = Some inventory, summary = []\<rparr>
                  else if new_items_data = [] then
                    \<lparr>table = frame_with_columns inventory columns_order,
                     total_display = PStr ''No items found in receipt.'',
                     file_output = None, state = Some inventory, summary = []\<rparr>
                  else
                    (let new_items_data =
                           map (dict_set ''receipt_timestamp'' (PStr receipt_timestamp))
                             new_items_data
                     in case aggregate_receipt E receipt_timestamp history inventory
                               new_items_data of
                          Inl e \<Rightarrow> on_exception inventory [] e
                        | Inr a \<Rightarrow>
                            (case summarise latest_total_amount a of
                               Inl e \<Rightarrow> on_exception inventory [] e
                             | Inr comparison_summary \<Rightarrow>
                                 (let inventory = inventory @ new_items a
                                  in case table_fault E inventory of
                                       Some e \<Rightarrow> on_exception inventory comparison_summary e
                                     | None \<Rightarrow>
                                         (let full_df = inventory_table inventory
                                          in \<lparr>table = full_df,
                                              total_display = latest_total_amount,
                                              file_output = (if \<not> frame_empty full_df
                                                             then csv_file E full_df else None),
                                              state = Some inventory,
                                              summary = comparison_summary\<rparr>))))))"

subsection \<open>Clearing and preparing for the next receipt\<close>

record cleared =
  c_state :: "item list"
  c_table :: dataframe
  c_file :: "string option"
  c_total :: pyval
  c_summary :: "fragment list"

definition clear_inventory :: cleared where
  "clear_inventory =
     \<lparr>c_state = [], c_table = empty_frame columns_order, c_file = None,
      c_total = PStr ''Cleared'', c_summary = []\<rparr>"

record prepared =
  p_image :: "image option"
  p_state :: "item list option"
  p_table :: dataframe
  p_total :: pyval
  p_file :: "string option"
  p_summary :: "fragment list"

definition prepare_for_next_receipt :: "item list option \<Rightarrow> prepared" where
  "prepare_for_next_receipt inventory_state =
     (let inventory_df =
            (case inventory_state of
               None \<Rightarrow> empty_frame columns_order
             | Some [] \<Rightarrow> empty_frame columns_order
             | Some (item # rest) \<Rightarrow>
                 (let inventory_df = frame_of_records (item # rest);
                      inventory_df = (if ''item'' \<in> set (columns inventory_df)
                                      then rename_columns inventory_df else inventory_df)
                  in if \<not> frame_empty inventory_df
                     then select_columns columns_order
                            (fold (\<lambda>col df. ensure_column col (PStr ''N/A'') df)
                               columns_order inventory_df)
                     else empty_frame columns_order))
      in \<lparr>p_image = None, p_state = inventory_state, p_table = inventory_df,
          p_total = PStr [], p_file = None, p_summary = []\<rparr>)"

section \<open>Quantities the proofs speak about\<close>

text \<open>
  What one stored item adds to the paid and to the online total, the name the lookup is
  invoked with, the shape of an item after the lookup loop, the batch identifier, the
  keys the table needs, and the fragments of the report by position. None of these is
  part of the program.
\<close>

definition fsum :: "pyfloat list \<Rightarrow> pyfloat" where
  "fsum xs = foldr fadd xs (Fin 0)"





definition has_batch :: "string \<Rightarrow> item \<Rightarrow> bool" where
  "has_batch ts r = (map_of r ''receipt_timestamp'' = Some (PStr ts))"

definition batch_tagged :: "item list \<Rightarrow> bool" where
  "batch_tagged inventory =
     list_all (\<lambda>r. case map_of r ''receipt_timestamp'' of
                      Some (PStr t) \<Rightarrow> t \<noteq> []
                    | _ \<Rightarrow> False) inventory"

definition displayable :: "item \<Rightarrow> bool" where
  "displayable r = (has_key r ''item'' \<and> has_key r ''price_paid''
                    \<and> has_key r ''predicted_expiry'')"



section \<open>Sample data\<close>

text \<open>
  An environment to run the model on: both keys are configured; the vision model answers
  with one entry, milk at $4.00; the lookup finds milk at 3.50 and fails on everything
  else; dates are printed as their ordinal and amounts as whole cents. The other
  environments change one field of it.
\<close>

definition sample_fmt2 :: "pyfloat \<Rightarrow> string" where
  "sample_fmt2 x = (case x of Fin r \<Rightarrow> show_int \<lfloor>r * 100\<rfloor> | PInf \<Rightarrow> ''inf''
                    | NInf \<Rightarrow> ''-inf'' | NaN \<Rightarrow> ''nan'')"

definition sample_lookup :: "pyval list \<Rightarrow> string \<Rightarrow> lookup_result" where
  "sample_lookup history name =
     (if name = ''Milk''
      then \<lparr>status = Found, price = Some (Fin (7 / 2)), details = ''$3.50 at Store'',
            url = PStr ''https://store.example/milk''\<rparr>
      else \<lparr>status = Error, price = None, details = ''Could not parse Perplexity response.'',
            url = PNone\<rparr>)"

definition milk :: item where
  "milk = [(''item'', PStr ''Milk''), (''days_until_expiry'', PInt 10),
           (''price_paid'', PStr ''$4.00'')]"

definition bread :: item where
  "bread = [(''item'', PStr ''Bread''), (''days_until_expiry'', PInt 5),
            (''price_paid'', PStr ''$2.00'')]"

definition sample_env :: env where
  "sample_env =
     \<lparr>google_api_key = True, gemini_client_initialized = True, perplexity_api_key = True,
      gemini_response = (\<lambda>img. Inr (PDict [(''items'', PList [PDict milk]),
                                             (''total'', PStr ''$4.00'')])),
      today = 739000, isoformat = show_int, fmt2 = sample_fmt2,
      randint = (\<lambda>k. 7), uniform = (\<lambda>k. Fin 4),
      perplexity = sample_lookup,
      table_fault = (\<lambda>inventory. None),
      csv_file = (\<lambda>df. Some ''/tmp/inventory.csv'')\<rparr>"

definition bad_json_env :: env where
  "bad_json_env = sample_env\<lparr>gemini_response :=
      (\<lambda>img. Inr (PDict [(''items'', PList []), (''total'', PStr ''Error: bad json'')]))\<rparr>"

definition odd_name_env :: env where
  "odd_name_env = sample_env\<lparr>gemini_response :=
      (\<lambda>img. Inr (PDict [(''items'', PList [PDict [(''item'', PInt 5),
                                                      (''days_until_expiry'', PInt 1),
                                                      (''price_paid'', PStr ''$1.00'')]]),
                           (''total'', PStr ''$1.00'')]))\<rparr>"

definition failing_table_env :: env where
  "failing_table_env = sample_env\<lparr>table_fault := (\<lambda>inventory. Some (OtherError ''boom''))\<rparr>"




definition unpriced :: item where
  "unpriced = [(''item'', PStr ''Bag''), (''days_until_expiry'', PInt 5),
               (''price_paid'', PStr ''N/A'')]"

definition start_state :: loop_state where
  "start_state = \<lparr>tot = zero_totals, annotated = [], lookups = []\<rparr>"

definition milk_t1 :: item where
  "milk_t1 = [(''item'', PStr ''Milk''), (''days_until_expiry'', PInt 10),
     (''price_paid'', PStr ''$4.00''), (''predicted_expiry'', PStr ''739010''),
     (''receipt_timestamp'', PStr ''t1''), (''online_price'', PFloat (Fin (7 / 2))),
     (''is_assumed_price'', PBool False), (''online_details'', PStr ''$3.50 at Store''),
     (''url'', PStr ''https://store.example/milk'')]"


definition milk_totals :: totals where
  "milk_totals = \<lparr>receipt_total = Fin 4, online_total = Fin (7 / 2), found_count = 1,
      assumed_count = 0,
      results = [result_row (PStr ''Milk'') (PStr ''$4.00'') (PStr ''$3.50 at Store'')
                   (PStr ''https://store.example/milk'') (PStr ''t1'')]\<rparr>"





section \<open>Properties of the price normalizer\<close>




















lemmas char_eval = is_digit_def code_def digit_val_def py_isspace_def c_isspace_def lower_def

lemmas price_eval = parse_price_def remove_char_def strip_def strip_with_def py_float_def
  float_literal_def split_sign_def scaled_def price_pattern_def denoted_value_def




text \<open>
  C10. On anything that is not a string \<^verbatim>\<open>parse_price\<close> returns \<^verbatim>\<open>None\<close> and does
  not raise; a price that is already a number is not handed back.
\<close>

theorem parse_price_non_string:
  "(\<forall>s. v \<noteq> PStr s) \<Longrightarrow> parse_price v = Inr None"
  by (cases v) (simp_all add: parse_price_def)

theorem parse_price_non_string_witness:
  "(\<forall>s. PFloat (Fin (399 / 100)) \<noteq> PStr s) \<and> parse_price (PFloat (Fin (399 / 100))) = Inr None
   \<and> parse_price PNone = Inr None \<and> parse_price (PList [PInt 1]) = Inr None"
  using parse_price_non_string [of "PFloat (Fin (399 / 100))"] parse_price_non_string [of PNone]
    parse_price_non_string [of "PList [PInt 1]"]
  by simp

section \<open>Dictionaries and float sums\<close>

lemma map_of_dict_set: "map_of (dict_set k v d) k' = (if k' = k then Some v else map_of d k')"
  by (simp add: dict_set_def update_conv')


lemma fadd_zero [simp]: "fadd a (Fin 0) = a" "fadd (Fin 0) a = a"
  by (cases a; simp)+

lemma fadd_assoc: "fadd (fadd a b) c = fadd a (fadd b c)"
  by (cases a; cases b; cases c) simp_all


lemma fsum_simps [simp]: "fsum [] = Fin 0" "fsum (x # xs) = fadd x (fsum xs)"
  by (simp_all add: fsum_def)

lemma fsum_append: "fsum (xs @ ys) = fadd (fsum xs) (fsum ys)"
  by (induction xs) (simp_all add: fadd_assoc)

section \<open>Running the model on the sample data\<close>

lemmas dict_eval = dict_get_def dict_set_def has_key_def

lemmas gemini_eval = extraction_def call_gemini_vision_api_def extract_validated_def
  validate_item_def compute_expiry_def default_expiry_def date_add_def max_ordinal_def
  py_int_str_def show_int_def show_nat.simps digit_char_def

lemmas sample_eval = sample_env_def sample_lookup_def sample_fmt2_def milk_def bread_def

lemmas lookup_eval = get_online_grocery_price_perplexity_def strip_def strip_with_def
  remove_char_def char_eval

lemmas aggregate_eval = aggregate_receipt_def process_item_def prior_item_def zero_totals_def
  result_row_def price_eval lookup_eval

lemmas format_eval = summarise_def format_comparison_summary_def comparison_block_def
  diff_status_def diff_colour_def fsub_def fgt_def item_row_def

lemma parse_4: "parse_price (PStr ''$4.00'') = Inr (Some (Fin 4))"
  by (simp add: price_eval char_eval)

lemma parse_2: "parse_price (PStr ''$2.00'') = Inr (Some (Fin 2))"
  by (simp add: price_eval char_eval)

lemma parse_na: "parse_price (PStr ''N/A'') = Inr None"
  by (simp add: price_eval char_eval)


lemma strip_bread: "strip (remove_char CHR ''^'' ''Bread'') = ''Bread''"
  by (simp add: lookup_eval)

lemma strip_bag: "strip (remove_char CHR ''^'' ''Bag'') = ''Bag''"
  by (simp add: lookup_eval)

lemma lookup_milk:
  "get_online_grocery_price_perplexity (sample_env\<lparr>table_fault := f\<rparr>) h (PStr ''Milk'')
     = Inr \<lparr>status = Found, price = Some (Fin (7 / 2)), details = ''$3.50 at Store'',
            url = PStr ''https://store.example/milk''\<rparr>"
  by (simp add: sample_eval lookup_eval)

lemma lookup_other:
  "name \<noteq> ''Milk'' \<Longrightarrow> strip (remove_char CHR ''^'' name) = name \<Longrightarrow>
   get_online_grocery_price_perplexity (sample_env\<lparr>table_fault := f\<rparr>) h (PStr name)
     = Inr \<lparr>status = Error, price = None, details = ''Could not parse Perplexity response.'',
            url = PNone\<rparr>"
  by (simp add: sample_eval get_online_grocery_price_perplexity_def)


lemma sample_extraction:
  "extraction (sample_env\<lparr>table_fault := f\<rparr>) img =
     Inr ([milk @ [(''predicted_expiry'', PStr ''739010'')]], PStr ''$4.00'')"
  by (simp add: sample_eval gemini_eval dict_eval)

lemma bad_json_extraction: "extraction bad_json_env ''img'' = Inr ([], PStr ''Error: bad json'')"
  by (simp add: bad_json_env_def sample_env_def extraction_def call_gemini_vision_api_def
      extract_validated_def dict_get_def)

lemma odd_name_extraction:
  "extraction odd_name_env ''img'' =
     Inr ([[(''item'', PInt 5), (''days_until_expiry'', PInt 1), (''price_paid'', PStr ''$1.00''),
            (''predicted_expiry'', PStr ''739001'')]], PStr ''$1.00'')"
  by (simp add: odd_name_env_def sample_eval gemini_eval dict_eval)

lemma sample_aggregate:
  "aggregate_receipt (sample_env\<lparr>table_fault := f\<rparr>) ''t1'' [] []
     [dict_set ''receipt_timestamp'' (PStr ''t1'')
        (milk @ [(''predicted_expiry'', PStr ''739010'')])]
   = Inr \<lparr>new_items = [milk_t1], current = milk_totals, cumulative = milk_totals,
          lookups_after = [PStr ''Milk'']\<rparr>"
  by (simp add: aggregate_receipt_def process_item_def zero_totals_def milk_def dict_eval
      parse_4 lookup_milk Let_def milk_t1_def milk_totals_def)

lemma odd_name_aggregate:
  "aggregate_receipt odd_name_env ''t2'' [] [bread]
     (map (dict_set ''receipt_timestamp'' (PStr ''t2''))
        [[(''item'', PInt 5), (''days_until_expiry'', PInt 1), (''price_paid'', PStr ''$1.00''),
            (''predicted_expiry'', PStr ''739001'')]])
   = Inl (AttributeError (quote @ ''int'' @ quote @ '' object has no attribute '' @ quote
                          @ ''replace'' @ quote))"
  by (simp add: odd_name_env_def sample_eval aggregate_eval dict_eval)



lemma sample_summary:
  "summarise (PStr ''$4.00'') \<lparr>new_items = [milk_t1], current = milk_totals,
      cumulative = milk_totals, lookups_after = [PStr ''Milk'']\<rparr>
   = Inr [Latest_Receipt (Fin 4),
       Online_Total 1 1 None (Fin (7 / 2)) ''green'' (Fin (1 / 2)) ''cheaper online'',
       Close_Div, Items_Header 1,
       Item_Row (PStr ''Milk'') (PStr ''https://store.example/milk'')
        (PStr ''$4.00'') [] (PStr ''$3.50 at Store''),
       Close_Div, Close_Outer]"
  by (simp add: format_eval milk_totals_def result_row_def dict_eval Let_def)




section \<open>The lookup loop and the cumulative totals\<close>

text \<open>
  C1. One pass of the loop folds the lookup result by the decision table: a found numeric
  price is added to the online total and counted as found, the item is marked not assumed;
  otherwise a parsable paid price is added and counted as assumed, the item is marked
  assumed; otherwise neither total and neither count changes.
\<close>

theorem lookup_folding_decision_table:
  assumes lk: "get_online_grocery_price_perplexity E (lookups st)
                 (dict_get item_dict ''item'' (PStr ''Unknown Item'')) = Inr r"
      and pp: "parse_price (dict_get item_dict ''price_paid'' (PStr ''N/A'')) = Inr paid"
  shows "\<exists>st' item'. process_item E ts st item_dict = Inr st'
           \<and> annotated st' = annotated st @ [item']
           \<and> (\<forall>p. status r = Found \<and> price r = Some p \<longrightarrow>
                  online_total (tot st') = fadd (online_total (tot st)) p
                \<and> found_count (tot st') = found_count (tot st) + 1
                \<and> assumed_count (tot st') = assumed_count (tot st)
                \<and> map_of item' ''online_price'' = Some (PFloat p)
                \<and> map_of item' ''is_assumed_price'' = Some (PBool False))
           \<and> (\<forall>q. \<not> (status r = Found \<and> price r \<noteq> None) \<and> paid = Some q \<longrightarrow>
                  online_total (tot st') = fadd (online_total (tot st)) q
                \<and> receipt_total (tot st') = fadd (receipt_total (tot st)) q
                \<and> assumed_count (tot st') = assumed_count (tot st) + 1
                \<and> found_count (tot st') = found_count (tot st)
                \<and> map_of item' ''online_price'' = Some (PFloat q)
                \<and> map_of item' ''is_assumed_price'' = Some (PBool True))
           \<and> (\<not> (status r = Found \<and> price r \<noteq> None) \<and> paid = None \<longrightarrow>
                  online_total (tot st') = online_total (tot st)
                \<and> receipt_total (tot st') = receipt_total (tot st)
                \<and> found_count (tot st') = found_count (tot st)
                \<and> assumed_count (tot st') = assumed_count (tot st)
                \<and> map_of item' ''online_price'' = Some PNone
                \<and> map_of item' ''is_assumed_price'' = Some (PBool False))"
proof (cases "status r = Found \<and> price r \<noteq> None")
  case True
  then obtain p where "status r = Found" "price r = Some p" by auto
  then show ?thesis using lk pp
    by (cases paid) (simp_all add: process_item_def Let_def map_of_dict_set)
next
  case False
  show ?thesis
  proof (cases paid)
    case None
    with False lk pp show ?thesis
      by (cases "status r"; cases "price r")
         (simp_all add: process_item_def Let_def map_of_dict_set)
  next
    case (Some q)
    with False lk pp show ?thesis
      by (cases "status r"; cases "price r")
         (simp_all add: process_item_def Let_def map_of_dict_set)
  qed
qed

theorem lookup_folding_decision_table_witness:
  "(\<exists>st' item'. process_item sample_env ''t1'' start_state milk = Inr st'
       \<and> annotated st' = [item'] \<and> online_total (tot st') = Fin (7 / 2)
       \<and> found_count (tot st') = 1 \<and> assumed_count (tot st') = 0
       \<and> map_of item' ''is_assumed_price'' = Some (PBool False))
   \<and> (\<exists>st' item'. process_item sample_env ''t1'' start_state bread = Inr st'
       \<and> annotated st' = [item'] \<and> online_total (tot st') = Fin 2
       \<and> found_count (tot st') = 0 \<and> assumed_count (tot st') = 1
       \<and> map_of item' ''is_assumed_price'' = Some (PBool True))
   \<and> (\<exists>st' item'. process_item sample_env ''t1'' start_state unpriced = Inr st'
       \<and> annotated st' = [item'] \<and> online_total (tot st') = Fin 0
       \<and> receipt_total (tot st') = Fin 0
       \<and> found_count (tot st') = 0 \<and> assumed_count (tot st') = 0)"
proof -
  have l1: "get_online_grocery_price_perplexity sample_env (lookups start_state)
              (dict_get milk ''item'' (PStr ''Unknown Item''))
            = Inr \<lparr>status = Found, price = Some (Fin (7 / 2)), details = ''$3.50 at Store'',
                   url = PStr ''https://store.example/milk''\<rparr>"
    using lookup_milk [of "table_fault sample_env"] by (simp add: milk_def dict_get_def)
  have p1: "parse_price (dict_get milk ''price_paid'' (PStr ''N/A'')) = Inr (Some (Fin 4))"
    by (simp add: milk_def dict_get_def parse_4)
  have l2: "get_online_grocery_price_perplexity sample_env (lookups start_state)
              (dict_get bread ''item'' (PStr ''Unknown Item''))
            = Inr \<lparr>status = Error, price = None,
                   details = ''Could not parse Perplexity response.'', url = PNone\<rparr>"
    using lookup_other [of "''Bread''" "table_fault sample_env"] strip_bread
    by (simp add: bread_def dict_get_def)
  have p2: "parse_price (dict_get bread ''price_paid'' (PStr ''N/A'')) = Inr (Some (Fin 2))"
    by (simp add: bread_def dict_get_def parse_2)
  have l3: "get_online_grocery_price_perplexity sample_env (lookups start_state)
              (dict_get unpriced ''item'' (PStr ''Unknown Item''))
            = Inr \<lparr>status = Error, price = None,
                   details = ''Could not parse Perplexity response.'', url = PNone\<rparr>"
    using lookup_other [of "''Bag''" "table_fault sample_env"] strip_bag
    by (simp add: unpriced_def dict_get_def)
  have p3: "parse_price (dict_get unpriced ''price_paid'' (PStr ''N/A'')) = Inr None"
    by (simp add: unpriced_def dict_get_def parse_na)
  have z: "tot start_state = zero_totals" "annotated start_state = []"
    by (simp_all add: start_state_def)
  from lookup_folding_decision_table [OF l1 p1, of "''t1''"]
  have a: "\<exists>st' item'. process_item sample_env ''t1'' start_state milk = Inr st'
       \<and> annotated st' = [item'] \<and> online_total (tot st') = Fin (7 / 2)
       \<and> found_count (tot st') = 1 \<and> assumed_count (tot st') = 0
       \<and> map_of item' ''is_assumed_price'' = Some (PBool False)"
    by (simp add: z zero_totals_def) blast
  from lookup_folding_decision_table [OF l2 p2, of "''t1''"]
  have b: "\<exists>st' item'. process_item sample_env ''t1'' start_state bread = Inr st'
       \<and> annotated st' = [item'] \<and> online_total (tot st') = Fin 2
       \<and> found_count (tot st') = 0 \<and> assumed_count (tot st') = 1
       \<and> map_of item' ''is_assumed_price'' = Some (PBool True)"
    by (simp add: z zero_totals_def) blast
  from lookup_folding_decision_table [OF l3 p3, of "''t1''"]
  have c: "\<exists>st' item'. process_item sample_env ''t1'' start_state unpriced = Inr st'
       \<and> annotated st' = [item'] \<and> online_total (tot st') = Fin 0
       \<and> receipt_total (tot st') = Fin 0
       \<and> found_count (tot st') = 0 \<and> assumed_count (tot st') = 0"
    by (simp add: z zero_totals_def) blast
  from a b c show ?thesis by blast
qed










section \<open>Processing a receipt\<close>

lemma process_receipt_success:
  assumes "extraction E img = Inr (rs, total_text)" and "rs \<noteq> []"
    and "aggregate_receipt E ts h inventory
           (map (dict_set ''receipt_timestamp'' (PStr ts)) rs) = Inr a"
    and "summarise total_text a = Inr html"
    and "table_fault E (inventory @ new_items a) = None"
  shows "state (process_receipt E ts h (Some img) (Some inventory))
           = Some (inventory @ new_items a)
       \<and> summary (process_receipt E ts h (Some img) (Some inventory)) = html
       \<and> total_display (process_receipt E ts h (Some img) (Some inventory)) = total_text"
  using assms by (simp add: process_receipt_def Let_def)

text \<open>
  C5. When the extraction yields no item and a total text that contains \<^verbatim>\<open>Error:\<close>,
  \<^verbatim>\<open>process_receipt\<close> returns that text as the total and the inventory as it was passed
  in (an absent inventory comes back as the empty list).
\<close>

theorem zero_items_error_propagated:
  assumes "extraction E img = Inr ([], PStr t)" and "contains ''Error:'' t"
  shows "total_display (process_receipt E ts h (Some img) (Some inventory)) = PStr t
       \<and> state (process_receipt E ts h (Some img) (Some inventory)) = Some inventory
       \<and> state (process_receipt E ts h (Some img) None) = Some []"
  using assms by (simp add: process_receipt_def carries_error_def)

theorem zero_items_error_propagated_witness:
  "extraction bad_json_env ''img'' = Inr ([], PStr ''Error: bad json'')
   \<and> contains ''Error:'' ''Error: bad json''
   \<and> total_display (process_receipt bad_json_env ''t1'' [] (Some ''img'') (Some []))
       = PStr ''Error: bad json''
   \<and> state (process_receipt bad_json_env ''t1'' [] (Some ''img'') (Some [])) = Some []"
proof -
  have c: "contains ''Error:'' ''Error: bad json''" by simp
  from zero_items_error_propagated [OF bad_json_extraction c, of "''t1''" "[]" "[]"]
  show ?thesis using bad_json_extraction c by simp
qed

text \<open>
  C3 (amended). An exception raised by the extraction, by a lookup, by the cumulative
  totals or by the summary reaches the handler before the new items are appended: the
  total shows the error message and the inventory returned is the one passed in.
\<close>

theorem exception_before_append:
  assumes "extraction E img = Inl e
         \<or> (\<exists>its total. extraction E img = Inr (its, total) \<and> its \<noteq> []
              \<and> (aggregate_receipt E ts h inventory
                    (map (dict_set ''receipt_timestamp'' (PStr ts)) its) = Inl e
                 \<or> (\<exists>a. aggregate_receipt E ts h inventory
                            (map (dict_set ''receipt_timestamp'' (PStr ts)) its) = Inr a
                        \<and> summarise total a = Inl e)))"
  shows "total_display (process_receipt E ts h (Some img) (Some inventory))
           = PStr (cross_mark @ '' An unexpected error occurred in processing: '' @ error_text e)
       \<and> state (process_receipt E ts h (Some img) (Some inventory)) = Some inventory"
  using assms by (auto simp: process_receipt_def on_exception_def)

theorem exception_before_append_witness:
  "total_display (process_receipt odd_name_env ''t2'' [] (Some ''img'') (Some [bread]))
     = PStr (cross_mark @ '' An unexpected error occurred in processing: ''
             @ quote @ ''int'' @ quote @ '' object has no attribute '' @ quote @ ''replace'' @ quote)
   \<and> state (process_receipt odd_name_env ''t2'' [] (Some ''img'') (Some [bread])) = Some [bread]"
proof -
  let ?e = "AttributeError (quote @ ''int'' @ quote @ '' object has no attribute '' @ quote
                          @ ''replace'' @ quote)"
  have "\<exists>its total. extraction odd_name_env ''img'' = Inr (its, total) \<and> its \<noteq> []
              \<and> (aggregate_receipt odd_name_env ''t2'' [] [bread]
                    (map (dict_set ''receipt_timestamp'' (PStr ''t2'')) its) = Inl ?e
                 \<or> (\<exists>a. aggregate_receipt odd_name_env ''t2'' [] [bread]
                            (map (dict_set ''receipt_timestamp'' (PStr ''t2'')) its) = Inr a
                        \<and> summarise total a = Inl ?e))"
    using odd_name_extraction odd_name_aggregate by blast
  then have "extraction odd_name_env ''img'' = Inl ?e \<or> (\<exists>its total. extraction odd_name_env ''img'' = Inr (its, total) \<and> its \<noteq> []
              \<and> (aggregate_receipt odd_name_env ''t2'' [] [bread]
                    (map (dict_set ''receipt_timestamp'' (PStr ''t2'')) its) = Inl ?e
                 \<or> (\<exists>a. aggregate_receipt odd_name_env ''t2'' [] [bread]
                            (map (dict_set ''receipt_timestamp'' (PStr ''t2'')) its) = Inr a
                        \<and> summarise total a = Inl ?e)))" by (rule disjI2)
  from exception_before_append [OF this] show ?thesis by simp
qed

text \<open>
  C3 as stated fails for the output preparation: the new items are appended before the
  table is built, so an exception raised there returns the inventory already extended.
\<close>

theorem exception_after_append_counterexample:
  "total_display (process_receipt failing_table_env ''t1'' [] (Some ''img'') (Some []))
     = PStr (cross_mark @ '' An unexpected error occurred in processing: boom'')
   \<and> state (process_receipt failing_table_env ''t1'' [] (Some ''img'') (Some [])) \<noteq> Some []"
  by (simp add: failing_table_env_def process_receipt_def sample_extraction sample_aggregate
      sample_summary on_exception_def Let_def)

lemma process_item_keeps_keys:
  assumes "process_item E ts st r = Inr st'"
    and "k \<notin> {''online_price'', ''is_assumed_price'', ''online_details'', ''url''}"
  shows "\<exists>r'. annotated st' = annotated st @ [r'] \<and> map_of r' k = map_of r k"
  using assms
  by (auto simp: process_item_def Let_def map_of_dict_set
      split: sum.splits option.splits lookup_status.splits prod.splits)

lemma lookup_loop_has_batch:
  "lookup_loop E ts st rs = Inr st' \<Longrightarrow> list_all (has_batch b) rs
     \<Longrightarrow> list_all (has_batch b) (annotated st) \<Longrightarrow> list_all (has_batch b) (annotated st')"
proof (induction rs arbitrary: st)
  case Nil
  then show ?case by simp
next
  case (Cons r rs)
  from Cons.prems(1) obtain st1 where s1: "process_item E ts st r = Inr st1"
    and s2: "lookup_loop E ts st1 rs = Inr st'"
    by (auto split: sum.splits)
  from process_item_keeps_keys [OF s1, of "''receipt_timestamp''"]
  obtain r' where "annotated st1 = annotated st @ [r']"
    "map_of r' ''receipt_timestamp'' = map_of r ''receipt_timestamp''" by auto
  with Cons.prems(2,3) have "list_all (has_batch b) (annotated st1)"
    by (simp add: has_batch_def list_all_iff)
  from Cons.IH [OF s2 _ this] Cons.prems(2) show ?case by simp
qed

lemma aggregate_has_batch:
  assumes "aggregate_receipt E ts h inventory
             (map (dict_set ''receipt_timestamp'' (PStr ts)) rs) = Inr a"
  shows "list_all (has_batch ts) (new_items a)"
proof -
  from assms obtain st where
    l: "lookup_loop E ts \<lparr>tot = zero_totals, annotated = [], lookups = h\<rparr>
          (map (dict_set ''receipt_timestamp'' (PStr ts)) rs) = Inr st"
    and n: "new_items a = annotated st"
    by (auto simp: aggregate_receipt_def split: sum.splits)
  have "list_all (has_batch ts) (map (dict_set ''receipt_timestamp'' (PStr ts)) rs)"
    by (simp add: list_all_iff has_batch_def map_of_dict_set)
  from lookup_loop_has_batch [OF l this] n show ?thesis by simp
qed

lemma has_key_dict_set: "has_key (dict_set k v d) k' \<longleftrightarrow> k' = k \<or> has_key d k'"
  by (simp add: has_key_def map_of_dict_set)

lemma validate_item_displayable: "validate_item E it = Inr (Some v) \<Longrightarrow> displayable v"
  by (auto simp: validate_item_def compute_expiry_def default_expiry_def displayable_def
      has_key_dict_set split: pyval.splits if_splits sum.splits py_error.splits)

lemma validate_items_displayable:
  "validate_items E its = Inr vs \<Longrightarrow> list_all displayable vs"
proof (induction its arbitrary: vs)
  case Nil
  then show ?case by simp
next
  case (Cons x xs)
  from Cons.prems obtain r vs' where r: "validate_item E x = Inr r"
    and vs': "validate_items E xs = Inr vs'"
    and vs: "vs = (case r of None \<Rightarrow> vs' | Some v \<Rightarrow> v # vs')"
    by (auto split: sum.splits)
  from Cons.IH [OF vs'] validate_item_displayable r vs show ?case
    by (cases r) auto
qed

lemma gemini_displayable:
  "call_gemini_vision_api E img = Inr (rs, t) \<Longrightarrow> list_all displayable rs"
  using validate_items_displayable
  by (auto simp: call_gemini_vision_api_def extract_validated_def Let_def
      split: if_splits sum.splits py_error.splits pyval.splits)

lemma mock_items_displayable: "mock_items E k ns = Inr its \<Longrightarrow> list_all displayable its"
proof (induction ns arbitrary: k its)
  case Nil
  then show ?case by simp
next
  case (Cons n ns)
  from Cons.prems obtain it its' where i: "mock_item E k n = Inr it"
    and r: "mock_items E (Suc k) ns = Inr its'" and e: "its = it # its'"
    by (auto split: sum.splits)
  from i have "displayable it"
    by (auto simp: mock_item_def displayable_def has_key_def split: sum.splits)
  with Cons.IH [OF r] e show ?case by simp
qed

lemma fill_prices_displayable:
  "list_all displayable its \<Longrightarrow> list_all displayable (fill_prices E k its)"
  by (induction its arbitrary: k) (auto simp: displayable_def has_key_dict_set)

lemma extraction_displayable:
  "extraction E img = Inr (rs, t) \<Longrightarrow> list_all displayable rs"
  using gemini_displayable mock_items_displayable fill_prices_displayable
  by (auto simp: extraction_def mock_gemini_vision_processor_def
      split: if_splits sum.splits prod.splits)

lemma process_item_keeps_displayable:
  assumes "process_item E ts st r = Inr st'" and "displayable r"
  shows "\<exists>r'. annotated st' = annotated st @ [r'] \<and> displayable r'"
proof -
  have k: "''item'' \<notin> {''online_price'', ''is_assumed_price'', ''online_details'', ''url''}"
    "''price_paid'' \<notin> {''online_price'', ''is_assumed_price'', ''online_details'', ''url''}"
    "''predicted_expiry'' \<notin> {''online_price'', ''is_assumed_price'', ''online_details'', ''url''}"
    by simp_all
  from process_item_keeps_keys [OF assms(1) k(1)] process_item_keeps_keys [OF assms(1) k(2)]
    process_item_keeps_keys [OF assms(1) k(3)] assms(2)
  show ?thesis by (auto simp: displayable_def has_key_def)
qed

lemma lookup_loop_displayable:
  "lookup_loop E ts st rs = Inr st' \<Longrightarrow> list_all displayable rs
     \<Longrightarrow> list_all displayable (annotated st) \<Longrightarrow> list_all displayable (annotated st')"
proof (induction rs arbitrary: st)
  case Nil
  then show ?case by simp
next
  case (Cons r rs)
  from Cons.prems(1) obtain st1 where s1: "process_item E ts st r = Inr st1"
    and s2: "lookup_loop E ts st1 rs = Inr st'"
    by (auto split: sum.splits)
  from Cons.prems(2) have r: "displayable r" and rs: "list_all displayable rs" by simp_all
  from process_item_keeps_displayable [OF s1 r] Cons.prems(3)
  have "list_all displayable (annotated st1)" by auto
  from Cons.IH [OF s2 rs this] show ?case .
qed

lemma aggregate_displayable:
  assumes "aggregate_receipt E ts h inventory
             (map (dict_set ''receipt_timestamp'' (PStr ts)) rs) = Inr a"
    and "list_all displayable rs"
  shows "list_all displayable (new_items a)"
proof -
  from assms(1) obtain st where
    l: "lookup_loop E ts \<lparr>tot = zero_totals, annotated = [], lookups = h\<rparr>
          (map (dict_set ''receipt_timestamp'' (PStr ts)) rs) = Inr st"
    and n: "new_items a = annotated st"
    by (auto simp: aggregate_receipt_def split: sum.splits)
  from assms(2)
  have "list_all displayable (map (dict_set ''receipt_timestamp'' (PStr ts)) rs)"
    by (simp add: list_all_iff displayable_def has_key_dict_set)
  from lookup_loop_displayable [OF l this] n show ?thesis by simp
qed

lemma process_receipt_state:
  "\<exists>new. state (process_receipt E ts h img (Some inventory)) = Some (inventory @ new)
         \<and> list_all (has_batch ts) new \<and> list_all displayable new"
proof (cases img)
  case None
  then show ?thesis by (simp add: process_receipt_def)
next
  case (Some i)
  show ?thesis
  proof (cases "extraction E i")
    case (Inl e)
    with Some show ?thesis by (simp add: process_receipt_def on_exception_def)
  next
    case (Inr x)
    obtain rs total where x: "x = (rs, total)" by (cases x)
    show ?thesis
    proof (cases "rs = []")
      case True
      with Some Inr x show ?thesis by (simp add: process_receipt_def)
    next
      case False
      show ?thesis
      proof (cases "aggregate_receipt E ts h inventory
                      (map (dict_set ''receipt_timestamp'' (PStr ts)) rs)")
        case (Inl e)
        with Some Inr x False show ?thesis
          by (simp add: process_receipt_def on_exception_def)
      next
        case a: (Inr a)
        from Inr x have "list_all displayable rs" by (simp add: extraction_displayable)
        note t = aggregate_has_batch [OF a] aggregate_displayable [OF a this]
        show ?thesis
        proof (cases "summarise total a")
          case (Inl e)
          with Some Inr x False a show ?thesis
            by (simp add: process_receipt_def on_exception_def)
        next
          case s: (Inr html)
          with Some Inr x False a t show ?thesis
            by (cases "table_fault E (inventory @ new_items a)")
               (simp_all add: process_receipt_def on_exception_def Let_def)
        qed
      qed
    qed
  qed
qed

text \<open>
  C8. When every item of the inventory has a non-empty batch identifier and the
  timestamp of the call is not empty, the inventory \<^verbatim>\<open>process_receipt\<close> returns is the
  old one followed by items that all carry that timestamp, so every item still has a
  non-empty identifier; \<^verbatim>\<open>clear_inventory\<close> returns the empty inventory and
  \<^verbatim>\<open>prepare_for_next_receipt\<close> the inventory it was given.
\<close>

theorem batch_identifier_invariant:
  assumes "ts \<noteq> []" and "batch_tagged inventory"
  shows "(\<exists>new. state (process_receipt E ts h img (Some inventory)) = Some (inventory @ new)
            \<and> list_all (has_batch ts) new \<and> batch_tagged (inventory @ new))
       \<and> batch_tagged (c_state clear_inventory)
       \<and> p_state (prepare_for_next_receipt (Some inventory)) = Some inventory"
proof -
  from process_receipt_state [of E ts h img inventory] obtain new where
    n: "state (process_receipt E ts h img (Some inventory)) = Some (inventory @ new)"
    and t: "list_all (has_batch ts) new" by blast
  from t assms(1) have "batch_tagged new"
    by (simp add: batch_tagged_def has_batch_def list_all_iff)
  with assms(2) have "batch_tagged (inventory @ new)" by (simp add: batch_tagged_def)
  with n t show ?thesis
    by (auto simp: batch_tagged_def clear_inventory_def prepare_for_next_receipt_def)
qed

theorem batch_identifier_invariant_witness:
  "''t2'' \<noteq> [] \<and> batch_tagged [milk_t1]
   \<and> (\<exists>new. state (process_receipt sample_env ''t2'' [] (Some ''img'') (Some [milk_t1]))
               = Some ([milk_t1] @ new)
            \<and> list_all (has_batch ''t2'') new \<and> batch_tagged ([milk_t1] @ new))"
proof -
  have a: "''t2'' \<noteq> []" by simp
  have b: "batch_tagged [milk_t1]" by (simp add: batch_tagged_def milk_t1_def)
  from batch_identifier_invariant [OF a b, of sample_env "[]" "Some ''img''"] a b
  show ?thesis by blast
qed

section \<open>Properties of the extraction adapter\<close>





section \<open>Properties of the summary formatter\<close>









section \<open>Properties of the session controller\<close>








text \<open>
  Every inventory the program builds is displayable: what \<^verbatim>\<open>process_receipt\<close> returns
  for a displayable inventory is displayable again, and so is the empty inventory.
\<close>

lemma process_receipt_displayable:
  assumes "list_all displayable inventory"
  shows "\<exists>inventory'. state (process_receipt E ts h img (Some inventory)) = Some inventory'
           \<and> list_all displayable inventory'"
proof -
  from process_receipt_state [of E ts h img inventory] obtain new where
    "state (process_receipt E ts h img (Some inventory)) = Some (inventory @ new)"
    "list_all displayable new" by blast
  with assms show ?thesis by simp
qed



end
